theory Spec2Isabelle
  imports Complex_Main "HOL-Library.Multiset"
begin

section \<open>Data model\<close>

text \<open>
  The program works on pandas data frames. A frame is modelled as the list of its rows in
  row order, a row as a record of the columns the program reads or writes. Prices are
  Python floats; they are modelled as real numbers (the specification's data model calls
  them finite reals), so rounding is outside the model, and a division by zero is
  modelled where it occurs: as an error for Python's division, as a missing value for
  numpy's. A timestamp is an instant in whole seconds since the Unix epoch (UTC), a
  calendar date the number of whole days since the epoch.
\<close>

datatype direction = Buy | Short

datatype py_error = FileNotFoundError | ValueError | IndexError | ZeroDivisionError

text \<open>A row of the source CSV: the five columns the loader requires. The column \<open>open\<close>
  is named \<open>open_px\<close> here; \<open>time\<close> is the text that \<open>pd.to_datetime\<close> parses.\<close>

record csv_row =
  time :: string
  open_px :: real
  high :: real
  low :: real
  close :: real

text \<open>A row of the frame returned by \<open>load_price_data\<close>: the CSV columns and the three
  columns the loader adds.\<close>

record bar = csv_row +
  timestamp :: int
  date :: int
  hour :: int

text \<open>A row of a trade window: the loaded columns and the seven columns that
  \<open>build_trade_window\<close> adds. The return in percent is the result of a numpy division:
  \<open>None\<close> stands for the non-finite value (\<open>inf\<close> or \<open>nan\<close>) of a division by zero.\<close>

record trade_row = bar +
  signal_day :: int
  trade_day :: int
  direction :: direction
  entry_price :: real
  hours_from_entry :: int
  price_delta_from_entry :: real
  return_pct_from_entry :: "real option"

text \<open>The dataclass \<open>TradeWindow\<close>; its fields carry the prefix \<open>tw_\<close> to keep them apart
  from the columns of the same names.\<close>

record TradeWindow =
  tw_signal_day :: int
  tw_trade_day :: int
  tw_direction :: direction
  tw_entry_price :: real
  tw_data :: "trade_row list"

text \<open>The dataclass \<open>TradeMetrics\<close> of analyze\_trades, fields prefixed with \<open>tm_\<close>.\<close>

record TradeMetrics =
  tm_trade_day :: int
  tm_signal_day :: int
  tm_direction :: direction
  tm_entry_price :: real
  tm_exit_price :: real
  tm_final_return :: real
  tm_final_return_pct :: real
  tm_max_return :: real
  tm_max_return_pct :: real
  tm_max_drawdown :: real
  tm_max_drawdown_pct :: real
  tm_hours_captured :: int

text \<open>The dictionary returned by \<open>summarize_metrics\<close>, one field per key.\<close>

record summary =
  summary_direction :: direction
  trade_count :: nat
  sum_final_return :: real
  sum_max_return :: real
  sum_max_drawdown :: real
  avg_final_return :: real
  avg_max_return :: real
  avg_max_drawdown :: real

text \<open>The file read by \<open>pd.read_csv\<close>: its header and its rows. A row holds a value for
  each of the five required columns; where the header lacks a column the loader fails
  before it reads that value.\<close>

record csv_file =
  columns :: "string list"
  csv_rows :: "csv_row list"

section \<open>generate\_trades\<close>

subsection \<open>The loader\<close>

text \<open>
  \<open>load_price_data\<close>. The file system is a partial map from paths to files, and
  \<open>pd.to_datetime\<close> is a parameter giving the instant of a time text.
  \<open>dt.tz_convert(None).dt.date\<close> and \<open>dt.hour\<close> are the UTC day and the UTC hour of the
  instant. \<open>sort_values\<close> is modelled by the library's sort by key, which fixes the
  order of rows with equal timestamps; the properties below use only that the result is
  sorted and has the same rows.
\<close>

definition date_of :: "int \<Rightarrow> int" where
  "date_of ts = ts div 86400"

definition hour_of :: "int \<Rightarrow> int" where
  "hour_of ts = (ts mod 86400) div 3600"

definition required :: "string set" where
  "required = {''time'', ''open'', ''high'', ''low'', ''close''}"

definition with_timestamp :: "(string \<Rightarrow> int) \<Rightarrow> csv_row \<Rightarrow> csv_row \<times> int" where
  "with_timestamp to_datetime r = (r, to_datetime (time r))"

definition with_date_hour :: "csv_row \<times> int \<Rightarrow> bar" where
  "with_date_hour p =
     \<lparr>time = time (fst p), open_px = open_px (fst p), high = high (fst p),
      low = low (fst p), close = close (fst p),
      timestamp = snd p, date = date_of (snd p), hour = hour_of (snd p)\<rparr>"

definition load_price_data ::
  "(string \<Rightarrow> int) \<Rightarrow> (string \<Rightarrow> csv_file option) \<Rightarrow> string \<Rightarrow> py_error + bar list" where
  "load_price_data to_datetime fs csv_path =
     (case fs csv_path of
        None \<Rightarrow> Inl FileNotFoundError
      | Some df \<Rightarrow>
          let missing = required - set (columns df) in
          if missing \<noteq> {} then Inl ValueError
          else Inr (map with_date_hour
                      (sort_key snd (map (with_timestamp to_datetime) (csv_rows df)))))"

text \<open>The CSV columns of a loaded row.\<close>

definition csv_of :: "bar \<Rightarrow> csv_row" where
  "csv_of b =
     \<lparr>time = time b, open_px = open_px b, high = high b, low = low b, close = close b\<rparr>"

subsection \<open>The signal\<close>

text \<open>
  \<open>determine_signal\<close>: \<open>day_df.loc[day_df["hour"] == 23]\<close> keeps the rows of hour 23 in
  row order, \<open>iloc[0]\<close> takes the first of them.
\<close>

definition determine_signal :: "bar list \<Rightarrow> direction option" where
  "determine_signal day_df =
     (let hour_23 = filter (\<lambda>r. hour r = 23) day_df in
      if hour_23 = [] then None
      else let row = hd hour_23 in
        if close row < open_px row then Some Buy
        else if close row > open_px row then Some Short
        else None)"

subsection \<open>The trade window\<close>

text \<open>
  The column assignments of \<open>build_trade_window\<close>, row by row. The division is numpy's
  on a column: it raises nothing, and a zero divisor gives a non-finite value.
\<close>

definition np_div :: "real \<Rightarrow> real \<Rightarrow> real option" where
  "np_div a b = (if b = 0 then None else Some (a / b))"

definition window_row :: "int \<Rightarrow> int \<Rightarrow> direction \<Rightarrow> real \<Rightarrow> int \<Rightarrow> bar \<Rightarrow> trade_row" where
  "window_row sd td dir ep entry_hour r =
     (let price_delta = (if dir = Buy then close r - ep else ep - close r) in
      \<lparr>time = time r, open_px = open_px r, high = high r, low = low r, close = close r,
       timestamp = timestamp r, date = date r, hour = hour r,
       signal_day = sd, trade_day = td, direction = dir, entry_price = ep,
       hours_from_entry = hour r - entry_hour,
       price_delta_from_entry = price_delta,
       return_pct_from_entry = map_option (\<lambda>q. q * 100) (np_div price_delta ep)\<rparr>)"

definition build_trade_window ::
  "bar list \<Rightarrow> int \<Rightarrow> direction \<Rightarrow> int \<Rightarrow> int \<Rightarrow> TradeWindow option" where
  "build_trade_window trade_df sd dir entry_hour exit_hour =
     (let entry_rows = filter (\<lambda>r. hour r = entry_hour) trade_df;
          exit_rows = filter (\<lambda>r. hour r = exit_hour) trade_df in
      if entry_rows = [] \<or> exit_rows = [] then None
      else
        let window = filter (\<lambda>r. hour r \<ge> entry_hour \<and> hour r \<le> exit_hour) trade_df in
        if window = [] then None
        else
          let ep = open_px (hd entry_rows);
              td = date (hd window) in
          Some \<lparr>tw_signal_day = sd, tw_trade_day = td, tw_direction = dir,
                tw_entry_price = ep,
                tw_data = map (window_row sd td dir ep entry_hour) window\<rparr>)"

subsection \<open>The days and the loop over day pairs\<close>

text \<open>\<open>df.groupby("date", sort=True)\<close>: one frame per date, dates ascending, each frame
  in the row order of \<open>df\<close>.\<close>

definition iter_daily_data :: "bar list \<Rightarrow> bar list list" where
  "iter_daily_data df =
     map (\<lambda>d. filter (\<lambda>r. date r = d) df) (sort (remdups (map date df)))"

text \<open>The body of the loop of \<open>generate_trade_windows\<close> for the indices still to visit;
  \<open>continue\<close> and a false \<open>if trade_window\<close> leave the list of windows as it is.\<close>

fun trade_loop ::
  "bar list list \<Rightarrow> int \<Rightarrow> int \<Rightarrow> nat list \<Rightarrow> TradeWindow list \<Rightarrow> TradeWindow list" where
  "trade_loop days entry_hour exit_hour [] trade_windows = trade_windows"
| "trade_loop days entry_hour exit_hour (idx # rest) trade_windows =
     (let signal_day_df = days ! idx;
          trade_day_df = days ! (idx + 1);
          sd = date (hd signal_day_df) in
      case determine_signal signal_day_df of
        None \<Rightarrow> trade_loop days entry_hour exit_hour rest trade_windows
      | Some dir \<Rightarrow>
          (case build_trade_window trade_day_df sd dir entry_hour exit_hour of
             None \<Rightarrow> trade_loop days entry_hour exit_hour rest trade_windows
           | Some trade_window \<Rightarrow>
               trade_loop days entry_hour exit_hour rest (trade_windows @ [trade_window])))"

definition generate_trade_windows :: "bar list \<Rightarrow> int \<Rightarrow> int \<Rightarrow> TradeWindow list" where
  "generate_trade_windows df entry_hour exit_hour =
     (let days = iter_daily_data df in
      trade_loop days entry_hour exit_hour [0..<length days - 1] [])"

section \<open>analyze\_trades\<close>

text \<open>Division of two Python floats raises \<open>ZeroDivisionError\<close> on a zero divisor.\<close>

definition py_div :: "real \<Rightarrow> real \<Rightarrow> py_error + real" where
  "py_div a b = (if b = 0 then Inl ZeroDivisionError else Inr (a / b))"

text \<open>
  \<open>compute_buy_metrics\<close> and \<open>compute_short_metrics\<close>. \<open>df.iloc[0]\<close> raises
  \<open>IndexError\<close> on a frame with no rows; the three percentages are computed in the order
  of the constructor's arguments.
\<close>

definition compute_buy_metrics :: "trade_row list \<Rightarrow> py_error + TradeMetrics" where
  "compute_buy_metrics df =
     (if df = [] then Inl IndexError
      else
        let ep = entry_price (hd df);
            exit_price = close (last df);
            max_price = max (Max (set (map close df))) (Max (set (map high df)));
            min_price = Min (set (map low df));
            max_return = max 0 (max_price - ep);
            max_drawdown = max 0 (ep - min_price);
            final_return = exit_price - ep in
        (case py_div final_return ep of Inl e \<Rightarrow> Inl e | Inr q1 \<Rightarrow>
        (case py_div max_return ep of Inl e \<Rightarrow> Inl e | Inr q2 \<Rightarrow>
        (case py_div max_drawdown ep of Inl e \<Rightarrow> Inl e | Inr q3 \<Rightarrow>
          Inr \<lparr>tm_trade_day = trade_day (hd df), tm_signal_day = signal_day (hd df),
               tm_direction = Buy, tm_entry_price = ep, tm_exit_price = exit_price,
               tm_final_return = final_return, tm_final_return_pct = q1 * 100,
               tm_max_return = max_return, tm_max_return_pct = q2 * 100,
               tm_max_drawdown = max_drawdown, tm_max_drawdown_pct = q3 * 100,
               tm_hours_captured = int (length df)\<rparr>))))"

definition compute_short_metrics :: "trade_row list \<Rightarrow> py_error + TradeMetrics" where
  "compute_short_metrics df =
     (if df = [] then Inl IndexError
      else
        let ep = entry_price (hd df);
            exit_price = close (last df);
            min_price = min (Min (set (map close df))) (Min (set (map low df)));
            max_price = max (Max (set (map close df))) (Max (set (map high df)));
            max_return = max 0 (ep - min_price);
            max_drawdown = max 0 (max_price - ep);
            final_return = ep - exit_price in
        (case py_div final_return ep of Inl e \<Rightarrow> Inl e | Inr q1 \<Rightarrow>
        (case py_div max_return ep of Inl e \<Rightarrow> Inl e | Inr q2 \<Rightarrow>
        (case py_div max_drawdown ep of Inl e \<Rightarrow> Inl e | Inr q3 \<Rightarrow>
          Inr \<lparr>tm_trade_day = trade_day (hd df), tm_signal_day = signal_day (hd df),
               tm_direction = Short, tm_entry_price = ep, tm_exit_price = exit_price,
               tm_final_return = final_return, tm_final_return_pct = q1 * 100,
               tm_max_return = max_return, tm_max_return_pct = q2 * 100,
               tm_max_drawdown = max_drawdown, tm_max_drawdown_pct = q3 * 100,
               tm_hours_captured = int (length df)\<rparr>))))"

text \<open>
  \<open>summarize_metrics\<close>. \<open>sum_final / count if count else 0.0\<close> divides only when the
  count is not zero; the division is Python's, so a fault would be an \<open>Inl\<close>. The
  variable \<open>count\<close> is written \<open>count'\<close>.
\<close>

definition avg :: "real \<Rightarrow> nat \<Rightarrow> py_error + real" where
  "avg s count' = (if count' \<noteq> 0 then py_div s (real count') else Inr 0)"

definition summarize_metrics :: "TradeMetrics list \<Rightarrow> direction \<Rightarrow> py_error + summary" where
  "summarize_metrics rows dir =
     (let count' = length rows;
          sum_final = sum_list (map tm_final_return rows);
          sum_max_ret = sum_list (map tm_max_return rows);
          sum_max_dd = sum_list (map tm_max_drawdown rows) in
      (case avg sum_final count' of Inl e \<Rightarrow> Inl e | Inr avg_final \<Rightarrow>
      (case avg sum_max_ret count' of Inl e \<Rightarrow> Inl e | Inr avg_max_ret \<Rightarrow>
      (case avg sum_max_dd count' of Inl e \<Rightarrow> Inl e | Inr avg_max_dd \<Rightarrow>
        Inr \<lparr>summary_direction = dir, trade_count = count',
             sum_final_return = sum_final, sum_max_return = sum_max_ret,
             sum_max_drawdown = sum_max_dd, avg_final_return = avg_final,
             avg_max_return = avg_max_ret, avg_max_drawdown = avg_max_dd\<rparr>))))"

section \<open>Rows for the examples\<close>

text \<open>The bar of day \<open>d\<close> at hour \<open>h\<close> with the given open, high, low and close.\<close>

definition bar_at :: "int \<Rightarrow> int \<Rightarrow> real \<Rightarrow> real \<Rightarrow> real \<Rightarrow> real \<Rightarrow> bar" where
  "bar_at d h o' hi lo c =
     \<lparr>time = [], open_px = o', high = hi, low = lo, close = c,
      timestamp = d * 86400 + h * 3600, date = d, hour = h\<rparr>"

text \<open>Trade windows as \<open>build_trade_window\<close> writes their rows: a Long window whose prices
  stay at or below the entry price 101, a Short window whose prices stay at or above it,
  the window of the specification's examples (entry 101, low 98, high 102, last close
  103), and a window whose entry price is 0.\<close>

definition falling_window :: "trade_row list" where
  "falling_window =
     map (window_row 0 1 Buy 101 11)
       [bar_at 1 11 101 101 99 100, bar_at 1 12 100 100 97 98]"

definition rising_window :: "trade_row list" where
  "rising_window =
     map (window_row 0 1 Short 101 11)
       [bar_at 1 11 101 104 101 103, bar_at 1 12 103 106 102 105]"

definition example_window :: "direction \<Rightarrow> trade_row list" where
  "example_window dir =
     map (window_row 0 1 dir 101 11)
       [bar_at 1 11 101 102 100 101, bar_at 1 12 101 102 98 99, bar_at 1 21 99 102 99 103]"

definition zero_entry_window :: "trade_row list" where
  "zero_entry_window = map (window_row 0 1 Buy 0 11) [bar_at 1 11 0 2 0 1]"

text \<open>Frames as the loader returns them: a signal day with a falling candle at 23:00
  followed by a trade day with bars at 11:00, 12:00 and 21:00, and the same without the
  bar at 21:00; then the two trade days alone.\<close>

definition example_frame :: "bar list" where
  "example_frame =
     [bar_at 0 22 99 101 98 100, bar_at 0 23 100 101 94 95,
      bar_at 1 11 101 102 100 101, bar_at 1 12 101 102 98 99, bar_at 1 21 99 102 99 103]"

definition no_exit_frame :: "bar list" where
  "no_exit_frame =
     [bar_at 0 22 99 101 98 100, bar_at 0 23 100 101 94 95,
      bar_at 1 11 101 102 100 101, bar_at 1 12 101 102 98 99]"

definition example_day :: "bar list" where
  "example_day =
     [bar_at 1 11 101 102 100 101, bar_at 1 12 101 102 98 99, bar_at 1 21 99 102 99 103]"

definition no_exit_day :: "bar list" where
  "no_exit_day = [bar_at 1 11 101 102 100 101, bar_at 1 12 101 102 98 99]"

text \<open>A file system with one source file of two rows, the later bar first, and one file
  whose header lacks the column \<open>close\<close>; and a reading of the two time texts as
  instants.\<close>

definition example_clock :: "string \<Rightarrow> int" where
  "example_clock t =
     (if t = ''1970-01-02T11:00:00Z'' then 126000
      else if t = ''1970-01-01T23:00:00Z'' then 82800
      else 0)"

definition example_fs :: "string \<Rightarrow> csv_file option" where
  "example_fs path =
     (if path = ''us30.csv'' then
        Some \<lparr>columns = [''time'', ''open'', ''high'', ''low'', ''close'', ''Volume''],
              csv_rows =
                [\<lparr>time = ''1970-01-02T11:00:00Z'', open_px = 101, high = 102, low = 100,
                   close = 101\<rparr>,
                 \<lparr>time = ''1970-01-01T23:00:00Z'', open_px = 100, high = 101, low = 94,
                   close = 95\<rparr>]\<rparr>
      else if path = ''short.csv'' then
        Some \<lparr>columns = [''time'', ''open'', ''high'', ''low''],
              csv_rows =
                [\<lparr>time = ''1970-01-02T11:00:00Z'', open_px = 101, high = 102, low = 100,
                   close = 0\<rparr>]\<rparr>
      else None)"

section \<open>Lists of rows\<close>

lemma find_hd_filter:
  "List.find P xs = (if filter P xs = [] then None else Some (hd (filter P xs)))"
  by (induction xs) auto

lemma filter_first:
  "\<forall>r\<in>set pre. \<not> P r \<Longrightarrow> P b \<Longrightarrow> filter P (pre @ b # post) = b # filter P post"
  by (induction pre) auto

lemma hd_filter_in: "filter P xs \<noteq> [] \<Longrightarrow> hd (filter P xs) \<in> set xs \<and> P (hd (filter P xs))"
  by (induction xs) auto

lemma bar_at_sel:
  "hour (bar_at d h o' hi lo c) = h" "date (bar_at d h o' hi lo c) = d"
  "open_px (bar_at d h o' hi lo c) = o'" "close (bar_at d h o' hi lo c) = c"
  "high (bar_at d h o' hi lo c) = hi" "low (bar_at d h o' hi lo c) = lo"
  "timestamp (bar_at d h o' hi lo c) = d * 86400 + h * 3600"
  by (simp_all add: bar_at_def)

lemma window_row_sel:
  "price_delta_from_entry (window_row sd td dir ep eh r) =
     (if dir = Buy then close r - ep else ep - close r)"
  "return_pct_from_entry (window_row sd td dir ep eh r) =
     (if ep = 0 then None else Some ((if dir = Buy then close r - ep else ep - close r) / ep * 100))"
  "entry_price (window_row sd td dir ep eh r) = ep"
  "close (window_row sd td dir ep eh r) = close r"
  by (simp_all add: window_row_def np_div_def Let_def)

section \<open>The signal\<close>

text \<open>
  Claim C1. The signal of a day comes from its bar of hour 23 alone (the first one in row
  order): a close strictly below the open gives Long (\<open>Buy\<close>), a close strictly above
  the open gives Short, and there is no signal when the day has no bar of hour 23 or when
  that bar's close equals its open.
\<close>

theorem determine_signal_rule:
  "(\<not> (\<exists>r\<in>set day_df. hour r = 23) \<longrightarrow> determine_signal day_df = None) \<and>
   (\<forall>b. List.find (\<lambda>r. hour r = 23) day_df = Some b \<longrightarrow>
      (close b < open_px b \<longrightarrow> determine_signal day_df = Some Buy) \<and>
      (close b > open_px b \<longrightarrow> determine_signal day_df = Some Short) \<and>
      (close b = open_px b \<longrightarrow> determine_signal day_df = None))"
proof (intro conjI allI impI)
  assume "\<not> (\<exists>r\<in>set day_df. hour r = 23)"
  then have "filter (\<lambda>r. hour r = 23) day_df = []"
    by (simp add: filter_empty_conv)
  then show "determine_signal day_df = None"
    by (simp add: determine_signal_def)
next
  fix b
  assume f: "List.find (\<lambda>r. hour r = 23) day_df = Some b"
  then have ne: "filter (\<lambda>r. hour r = 23) day_df \<noteq> []"
    and hd: "hd (filter (\<lambda>r. hour r = 23) day_df) = b"
    by (auto simp: find_hd_filter split: if_splits)
  { assume "close b < open_px b"
    with ne hd show "determine_signal day_df = Some Buy"
      by (simp add: determine_signal_def Let_def) }
  { assume "close b > open_px b"
    with ne hd show "determine_signal day_df = Some Short"
      by (simp add: determine_signal_def Let_def) }
  { assume "close b = open_px b"
    with ne hd show "determine_signal day_df = None"
      by (simp add: determine_signal_def Let_def) }
qed

text \<open>The rule at the specification's example (open 100, close 95 at 23:00 gives Long),
  at a rising candle, at a flat candle and at a day without a bar of hour 23.\<close>

theorem determine_signal_rule_witness:
  "determine_signal [bar_at 0 22 99 101 98 100, bar_at 0 23 100 101 94 95] = Some Buy \<and>
   determine_signal [bar_at 0 23 95 101 94 100] = Some Short \<and>
   determine_signal [bar_at 0 23 100 101 94 100] = None \<and>
   determine_signal [bar_at 0 22 99 101 98 100] = None"
  using determine_signal_rule [of "[bar_at 0 22 99 101 98 100, bar_at 0 23 100 101 94 95]"]
    determine_signal_rule [of "[bar_at 0 23 95 101 94 100]"]
    determine_signal_rule [of "[bar_at 0 23 100 101 94 100]"]
    determine_signal_rule [of "[bar_at 0 22 99 101 98 100]"]
  by (simp add: bar_at_def)

text \<open>
  Claim C10. When a day has several bars of hour 23, the first of them in row order
  decides the signal: whatever rows follow it, bars of hour 23 among them too, the signal
  is that of the day made of this one bar.
\<close>

theorem determine_signal_first_bar:
  "hour b = 23 \<Longrightarrow> \<forall>r\<in>set pre. hour r \<noteq> 23 \<Longrightarrow>
   determine_signal (pre @ b # post) = determine_signal [b]"
  by (simp add: determine_signal_def filter_first)

text \<open>A falling bar of hour 23 followed by a rising one: the signal stays Long.\<close>

theorem determine_signal_first_bar_witness:
  "determine_signal
     ([bar_at 0 22 99 101 98 100] @ bar_at 0 23 100 101 94 95 # [bar_at 0 23 95 101 94 100])
     = determine_signal [bar_at 0 23 100 101 94 95] \<and>
   determine_signal [bar_at 0 23 100 101 94 95] = Some Buy \<and>
   determine_signal [bar_at 0 23 95 101 94 100] = Some Short"
  using determine_signal_first_bar [of "bar_at 0 23 100 101 94 95"
      "[bar_at 0 22 99 101 98 100]" "[bar_at 0 23 95 101 94 100]"]
  by (simp add: bar_at_def determine_signal_def)

section \<open>The summary\<close>

lemma avg_total: "avg s n = Inr (if n = 0 then 0 else s / real n)"
  by (simp add: avg_def py_div_def)

text \<open>
  Claim C6. \<open>summarize_metrics\<close> always returns: the count of the trades, the sums of
  final return, maximum return and maximum drawdown, and averages that are each sum
  divided by the count, or 0 when there is no trade. No division raises.
\<close>

theorem summarize_metrics_total:
  "summarize_metrics rows dir =
     Inr \<lparr>summary_direction = dir, trade_count = length rows,
          sum_final_return = sum_list (map tm_final_return rows),
          sum_max_return = sum_list (map tm_max_return rows),
          sum_max_drawdown = sum_list (map tm_max_drawdown rows),
          avg_final_return =
            (if length rows = 0 then 0
             else sum_list (map tm_final_return rows) / real (length rows)),
          avg_max_return =
            (if length rows = 0 then 0
             else sum_list (map tm_max_return rows) / real (length rows)),
          avg_max_drawdown =
            (if length rows = 0 then 0
             else sum_list (map tm_max_drawdown rows) / real (length rows))\<rparr>"
  by (simp add: summarize_metrics_def avg_total Let_def)

section \<open>The metrics of a trade\<close>

lemma py_div_nonzero: "b \<noteq> 0 \<Longrightarrow> py_div a b = Inr (a / b)"
  by (simp add: py_div_def)

lemma compute_buy_metrics_Inr:
  assumes "compute_buy_metrics df = Inr m"
  shows "df \<noteq> [] \<and> entry_price (hd df) \<noteq> 0 \<and>
    tm_max_return m =
      max 0 (max (Max (set (map close df))) (Max (set (map high df))) - entry_price (hd df)) \<and>
    tm_max_drawdown m = max 0 (entry_price (hd df) - Min (set (map low df)))"
  using assms
  by (auto simp: compute_buy_metrics_def Let_def py_div_def split: if_splits)

lemma compute_short_metrics_Inr:
  assumes "compute_short_metrics df = Inr m"
  shows "df \<noteq> [] \<and> entry_price (hd df) \<noteq> 0 \<and>
    tm_max_return m =
      max 0 (entry_price (hd df) - min (Min (set (map close df))) (Min (set (map low df)))) \<and>
    tm_max_drawdown m =
      max 0 (max (Max (set (map close df))) (Max (set (map high df))) - entry_price (hd df))"
  using assms
  by (auto simp: compute_short_metrics_def Let_def py_div_def split: if_splits)

text \<open>
  Claim C2, as the code has it. On a window with at least one row and an entry price
  other than zero, \<open>compute_buy_metrics\<close> and \<open>compute_short_metrics\<close> return metrics
  with the maximum return, maximum drawdown and final return of the claim's formulas,
  each percentage equal to its value divided by the entry price times 100, and the number
  of rows as hours captured. The entry price is the one recorded on the first row.
\<close>

theorem compute_metrics_values:
  assumes "df \<noteq> []" and "entry_price (hd df) \<noteq> 0"
  shows "(\<exists>m. compute_buy_metrics df = Inr m \<and>
      tm_max_return m =
        max 0 (max (Max (set (map close df))) (Max (set (map high df))) - entry_price (hd df)) \<and>
      tm_max_drawdown m = max 0 (entry_price (hd df) - Min (set (map low df))) \<and>
      tm_final_return m = close (last df) - entry_price (hd df) \<and>
      tm_final_return_pct m = tm_final_return m / entry_price (hd df) * 100 \<and>
      tm_max_return_pct m = tm_max_return m / entry_price (hd df) * 100 \<and>
      tm_max_drawdown_pct m = tm_max_drawdown m / entry_price (hd df) * 100 \<and>
      tm_hours_captured m = int (length df)) \<and>
    (\<exists>m. compute_short_metrics df = Inr m \<and>
      tm_max_return m =
        max 0 (entry_price (hd df) - min (Min (set (map close df))) (Min (set (map low df)))) \<and>
      tm_max_drawdown m =
        max 0 (max (Max (set (map close df))) (Max (set (map high df))) - entry_price (hd df)) \<and>
      tm_final_return m = entry_price (hd df) - close (last df) \<and>
      tm_final_return_pct m = tm_final_return m / entry_price (hd df) * 100 \<and>
      tm_max_return_pct m = tm_max_return m / entry_price (hd df) * 100 \<and>
      tm_max_drawdown_pct m = tm_max_drawdown m / entry_price (hd df) * 100 \<and>
      tm_hours_captured m = int (length df))"
  using assms
  by (simp add: compute_buy_metrics_def compute_short_metrics_def py_div_nonzero Let_def)

text \<open>The specification's examples: entry 101 and last close 103 give a Long final return
  of 2, that is 200/101 percent; for Short, low 98 and high 102 give a maximum return of
  3 (the example's value) and, with the last close of 103, a maximum drawdown of 2.\<close>

theorem compute_metrics_values_witness:
  "example_window Buy \<noteq> [] \<and> entry_price (hd (example_window Buy)) \<noteq> 0 \<and>
   (\<exists>m. compute_buy_metrics (example_window Buy) = Inr m \<and>
      tm_final_return m = 2 \<and> tm_final_return_pct m = 200 / 101 \<and>
      tm_max_return m = 2 \<and> tm_max_drawdown m = 3 \<and> tm_hours_captured m = 3) \<and>
   (\<exists>m. compute_short_metrics (example_window Short) = Inr m \<and>
      tm_final_return m = - 2 \<and> tm_max_return m = 3 \<and> tm_max_drawdown m = 2 \<and>
      tm_max_return_pct m = 300 / 101 \<and> tm_hours_captured m = 3)"
  using compute_metrics_values [of "example_window Buy"]
    compute_metrics_values [of "example_window Short"]
  by (auto simp: example_window_def window_row_def bar_at_def)

text \<open>Claim C2 as stated fails on a window with one row and entry price 0: the division
  of the final return by the entry price raises, and no metrics are returned.\<close>

theorem compute_metrics_zero_entry:
  "zero_entry_window \<noteq> [] \<and>
   compute_buy_metrics zero_entry_window = Inl ZeroDivisionError \<and>
   compute_short_metrics zero_entry_window = Inl ZeroDivisionError"
  by (simp add: zero_entry_window_def compute_buy_metrics_def compute_short_metrics_def
      window_row_def bar_at_def py_div_def Let_def)

text \<open>
  Claim C4. Whatever the direction and the prices, the metrics computed from a window
  have a maximum return and a maximum drawdown that are not negative.
\<close>

theorem metrics_nonnegative:
  "(compute_buy_metrics df = Inr m \<longrightarrow> 0 \<le> tm_max_return m \<and> 0 \<le> tm_max_drawdown m) \<and>
   (compute_short_metrics df = Inr m \<longrightarrow> 0 \<le> tm_max_return m \<and> 0 \<le> tm_max_drawdown m)"
  using compute_buy_metrics_Inr [of df m] compute_short_metrics_Inr [of df m]
  by simp

text \<open>Windows whose prices never move in the trade's favour: the maximum return is
  clamped to 0.\<close>

theorem metrics_nonnegative_witness:
  "(\<exists>m. compute_buy_metrics falling_window = Inr m \<and> tm_max_return m = 0 \<and>
        0 \<le> tm_max_return m \<and> 0 \<le> tm_max_drawdown m) \<and>
   (\<exists>m. compute_short_metrics rising_window = Inr m \<and> tm_max_return m = 0 \<and>
        0 \<le> tm_max_return m \<and> 0 \<le> tm_max_drawdown m)"
proof -
  obtain m where m: "compute_buy_metrics falling_window = Inr m" "tm_max_return m = 0"
    by (simp add: compute_buy_metrics_def falling_window_def window_row_def bar_at_def
        py_div_def Let_def)
  obtain n where n: "compute_short_metrics rising_window = Inr n" "tm_max_return n = 0"
    by (simp add: compute_short_metrics_def rising_window_def window_row_def bar_at_def
        py_div_def Let_def)
  from m metrics_nonnegative [of falling_window m] n metrics_nonnegative [of rising_window n]
  show ?thesis by simp
qed

section \<open>The trade window\<close>

lemma build_trade_window_SomeD:
  assumes "build_trade_window trade_df sd dir eh xh = Some w"
  shows "filter (\<lambda>r. hour r = eh) trade_df \<noteq> []"
    and "filter (\<lambda>r. hour r = xh) trade_df \<noteq> []"
    and "filter (\<lambda>r. eh \<le> hour r \<and> hour r \<le> xh) trade_df \<noteq> []"
    and "tw_signal_day w = sd"
    and "tw_trade_day w = date (hd (filter (\<lambda>r. eh \<le> hour r \<and> hour r \<le> xh) trade_df))"
    and "tw_direction w = dir"
    and "tw_entry_price w = open_px (hd (filter (\<lambda>r. hour r = eh) trade_df))"
    and "tw_data w =
           map (window_row sd (tw_trade_day w) dir (tw_entry_price w) eh)
             (filter (\<lambda>r. eh \<le> hour r \<and> hour r \<le> xh) trade_df)"
  using assms
  by (auto simp: build_trade_window_def Let_def split: if_splits)

lemma build_trade_window_missing:
  assumes "\<not> (\<exists>r\<in>set trade_df. hour r = eh) \<or> \<not> (\<exists>r\<in>set trade_df. hour r = xh)"
  shows "build_trade_window trade_df sd dir eh xh = None"
proof -
  from assms have "filter (\<lambda>r. hour r = eh) trade_df = [] \<or> filter (\<lambda>r. hour r = xh) trade_df = []"
    by (auto simp: filter_empty_conv)
  then show ?thesis
    by (auto simp: build_trade_window_def)
qed

lemma window_nonempty:
  assumes "\<exists>r\<in>set trade_df. hour r = eh" and "eh \<le> xh"
  shows "filter (\<lambda>r. eh \<le> hour r \<and> hour r \<le> xh) trade_df \<noteq> []"
  using assms by (auto simp: filter_empty_conv)

lemma build_example_day:
  "build_trade_window example_day 0 Buy 11 21 =
     Some \<lparr>tw_signal_day = 0, tw_trade_day = 1, tw_direction = Buy, tw_entry_price = 101,
       tw_data = example_window Buy\<rparr>"
  by (simp add: build_trade_window_def example_day_def example_window_def Let_def bar_at_sel)

text \<open>
  Claim C9. When the trade day has a bar at the entry hour and a bar at the exit hour and
  the entry hour is not after the exit hour, the slice of the bars between the two hours
  is not empty, so \<open>build_trade_window\<close> does not leave through its empty-slice branch and
  returns a window; and every window it returns has at least one bar.
\<close>

theorem window_slice_nonempty:
  "((\<exists>r\<in>set trade_df. hour r = eh) \<and> (\<exists>r\<in>set trade_df. hour r = xh) \<and> eh \<le> xh \<longrightarrow>
      filter (\<lambda>r. hour r \<ge> eh \<and> hour r \<le> xh) trade_df \<noteq> [] \<and>
      (\<exists>w. build_trade_window trade_df sd dir eh xh = Some w)) \<and>
   (\<forall>w. build_trade_window trade_df sd dir eh xh = Some w \<longrightarrow> tw_data w \<noteq> [])"
proof (intro conjI impI allI)
  assume h: "(\<exists>r\<in>set trade_df. hour r = eh) \<and> (\<exists>r\<in>set trade_df. hour r = xh) \<and> eh \<le> xh"
  then show ne: "filter (\<lambda>r. hour r \<ge> eh \<and> hour r \<le> xh) trade_df \<noteq> []"
    using window_nonempty [of trade_df eh xh] by simp
  from h have "filter (\<lambda>r. hour r = eh) trade_df \<noteq> []" "filter (\<lambda>r. hour r = xh) trade_df \<noteq> []"
    by (auto simp: filter_empty_conv)
  with ne show "\<exists>w. build_trade_window trade_df sd dir eh xh = Some w"
    by (simp add: build_trade_window_def Let_def)
next
  fix w
  assume "build_trade_window trade_df sd dir eh xh = Some w"
  from build_trade_window_SomeD(3,8) [OF this] show "tw_data w \<noteq> []"
    by simp
qed

text \<open>A trade day with bars at 11:00, 12:00 and 21:00: the window has three bars.\<close>

theorem window_slice_nonempty_witness:
  "filter (\<lambda>r. hour r \<ge> 11 \<and> hour r \<le> 21) example_day \<noteq> [] \<and>
   build_trade_window example_day 0 Buy 11 21 =
     Some \<lparr>tw_signal_day = 0, tw_trade_day = 1, tw_direction = Buy, tw_entry_price = 101,
       tw_data = example_window Buy\<rparr> \<and>
   length (example_window Buy) = 3"
  using window_slice_nonempty [of example_day 11 21 0 Buy]
  by (simp add: build_example_day) (simp add: example_day_def example_window_def bar_at_sel)

lemma hour_of_mono:
  assumes "date_of s = date_of t" and "s \<le> t"
  shows "hour_of s \<le> hour_of t"
proof -
  have "s = 86400 * (s div 86400) + s mod 86400" "t = 86400 * (t div 86400) + t mod 86400"
    by simp_all
  with assms have "s mod 86400 \<le> t mod 86400"
    unfolding date_of_def by linarith
  then show ?thesis
    unfolding hour_of_def by (rule zdiv_mono1) simp
qed

lemma sorted_hours:
  assumes "sorted (map timestamp df)"
    and "\<forall>r\<in>set df. hour r = hour_of (timestamp r) \<and> date r = date_of (timestamp r)"
    and "\<forall>r\<in>set df. \<forall>r'\<in>set df. date r = date r'"
  shows "sorted (map hour df)"
proof -
  from assms(1) have "sorted_wrt (\<lambda>x y. timestamp x \<le> timestamp y) df"
    by (simp add: sorted_map)
  then have "sorted_wrt (\<lambda>x y. hour x \<le> hour y) df"
  proof (rule sorted_wrt_mono_rel [rotated])
    fix x y
    assume "x \<in> set df" "y \<in> set df" "timestamp x \<le> timestamp y"
    with assms(2,3) show "hour x \<le> hour y"
      using hour_of_mono [of "timestamp x" "timestamp y"] by metis
  qed
  then show ?thesis by (simp add: sorted_map)
qed

lemma hours_from_entry_window_row [simp]:
  "hours_from_entry (window_row sd td dir ep eh r) = hour r - eh"
  "hour (window_row sd td dir ep eh r) = hour r"
  by (simp_all add: window_row_def Let_def)

text \<open>
  Claim C7. Every bar of a window built by \<open>build_trade_window\<close> has its hour between
  the entry hour and the exit hour inclusive, and its \<open>hours_from_entry\<close> is the hour
  minus the entry hour, so it lies between 0 and the exit hour minus the entry hour. When
  the trade day is sorted by timestamp, its rows share one date, and date and hour are
  those of each row's timestamp (what the loader and the grouping by date give),
  \<open>hours_from_entry\<close> never decreases along the window.
\<close>

theorem window_hours:
  assumes "build_trade_window trade_df sd dir eh xh = Some w"
  shows "(\<forall>b\<in>set (tw_data w). eh \<le> hour b \<and> hour b \<le> xh \<and>
            hours_from_entry b = hour b - eh \<and>
            0 \<le> hours_from_entry b \<and> hours_from_entry b \<le> xh - eh) \<and>
         (sorted (map timestamp trade_df) \<and>
          (\<forall>r\<in>set trade_df. hour r = hour_of (timestamp r) \<and> date r = date_of (timestamp r)) \<and>
          (\<forall>r\<in>set trade_df. \<forall>r'\<in>set trade_df. date r = date r') \<longrightarrow>
            sorted (map hours_from_entry (tw_data w)))"
proof (intro conjI impI)
  let ?win = "filter (\<lambda>r. eh \<le> hour r \<and> hour r \<le> xh) trade_df"
  have d: "tw_data w = map (window_row sd (tw_trade_day w) dir (tw_entry_price w) eh) ?win"
    using assms by (rule build_trade_window_SomeD(8))
  show "\<forall>b\<in>set (tw_data w). eh \<le> hour b \<and> hour b \<le> xh \<and>
            hours_from_entry b = hour b - eh \<and>
            0 \<le> hours_from_entry b \<and> hours_from_entry b \<le> xh - eh"
    by (auto simp: d)
  assume a: "sorted (map timestamp trade_df) \<and>
          (\<forall>r\<in>set trade_df. hour r = hour_of (timestamp r) \<and> date r = date_of (timestamp r)) \<and>
          (\<forall>r\<in>set trade_df. \<forall>r'\<in>set trade_df. date r = date r')"
  then have "sorted (map hour trade_df)"
    using sorted_hours [of trade_df] by blast
  then have "sorted_wrt (\<lambda>x y. hour x \<le> hour y) ?win"
    by (simp add: sorted_map sorted_wrt_filter)
  then have "sorted_wrt (\<lambda>x y. hour x - eh \<le> hour y - eh) ?win"
    by simp
  then show "sorted (map hours_from_entry (tw_data w))"
    by (simp add: d sorted_map sorted_wrt_map)
qed

text \<open>The trade day with bars at 11:00, 12:00 and 21:00: the offsets are 0, 1 and 10.\<close>

theorem window_hours_witness:
  "sorted (map timestamp example_day) \<and>
   build_trade_window example_day 0 Buy 11 21 =
     Some \<lparr>tw_signal_day = 0, tw_trade_day = 1, tw_direction = Buy, tw_entry_price = 101,
       tw_data = example_window Buy\<rparr> \<and>
   map hour (example_window Buy) = [11, 12, 21] \<and>
   map hours_from_entry (example_window Buy) = [0, 1, 10] \<and>
   sorted (map hours_from_entry (example_window Buy))"
proof -
  have s: "sorted (map timestamp example_day)"
    by (simp add: example_day_def bar_at_sel)
  have d: "\<forall>r\<in>set example_day. hour r = hour_of (timestamp r) \<and> date r = date_of (timestamp r)"
    by (simp add: example_day_def bar_at_sel hour_of_def date_of_def)
  have e: "\<forall>r\<in>set example_day. \<forall>r'\<in>set example_day. date r = date r'"
    by (simp add: example_day_def bar_at_sel)
  have m: "map hours_from_entry (example_window Buy) = [0, 1, 10]"
    "map hour (example_window Buy) = [11, 12, 21]"
    by (simp_all add: example_window_def bar_at_sel)
  let ?w = "\<lparr>tw_signal_day = 0, tw_trade_day = 1, tw_direction = Buy, tw_entry_price = 101,
       tw_data = example_window Buy\<rparr>"
  from window_hours [OF build_example_day]
  have "sorted (map timestamp example_day) \<and>
      (\<forall>r\<in>set example_day. hour r = hour_of (timestamp r) \<and> date r = date_of (timestamp r)) \<and>
      (\<forall>r\<in>set example_day. \<forall>r'\<in>set example_day. date r = date r') \<longrightarrow>
      sorted (map hours_from_entry (tw_data ?w))"
    by (rule conjunct2)
  with s d e have "sorted (map hours_from_entry (tw_data ?w))"
    by blast
  then have h: "sorted (map hours_from_entry (example_window Buy))"
    by (simp only: TradeWindow.simps)
  show ?thesis
    by (intro conjI s build_example_day m h)
qed

section \<open>The generated windows\<close>

lemma trade_loop_origin:
  "w \<in> set (trade_loop days eh xh idxs tws) \<Longrightarrow>
   w \<in> set tws \<or>
   (\<exists>idx\<in>set idxs. \<exists>dir.
      determine_signal (days ! idx) = Some dir \<and>
      build_trade_window (days ! (idx + 1)) (date (hd (days ! idx))) dir eh xh = Some w)"
proof (induction idxs arbitrary: tws)
  case Nil
  then show ?case by simp
next
  case (Cons idx rest)
  show ?case
  proof (cases "determine_signal (days ! idx)")
    case None
    with Cons.prems have "w \<in> set (trade_loop days eh xh rest tws)" by simp
    from Cons.IH [OF this] show ?thesis by auto
  next
    case (Some dir)
    show ?thesis
    proof (cases "build_trade_window (days ! (idx + 1)) (date (hd (days ! idx))) dir eh xh")
      case None
      with Some Cons.prems have "w \<in> set (trade_loop days eh xh rest tws)" by simp
      from Cons.IH [OF this] show ?thesis by auto
    next
      case (Some tw)
      with \<open>determine_signal (days ! idx) = Some dir\<close> Cons.prems
      have "w \<in> set (trade_loop days eh xh rest (tws @ [tw]))" by simp
      from Cons.IH [OF this] Some \<open>determine_signal (days ! idx) = Some dir\<close>
      show ?thesis by auto
    qed
  qed
qed

lemma iter_daily_data_nth:
  assumes "k < length (iter_daily_data df)"
  shows "\<exists>d. iter_daily_data df ! k = filter (\<lambda>r. date r = d) df"
  using assms by (auto simp: iter_daily_data_def)

lemma generate_origin:
  assumes "w \<in> set (generate_trade_windows df eh xh)"
  shows "\<exists>sd dir d. build_trade_window (filter (\<lambda>r. date r = d) df) sd dir eh xh = Some w"
proof -
  let ?days = "iter_daily_data df"
  from assms have "w \<in> set (trade_loop ?days eh xh [0..<length ?days - 1] [])"
    by (simp add: generate_trade_windows_def Let_def)
  from trade_loop_origin [OF this] obtain idx dir where
    i: "idx < length ?days - 1" and
    b: "build_trade_window (?days ! (idx + 1)) (date (hd (?days ! idx))) dir eh xh = Some w"
    by auto
  from i have "idx + 1 < length ?days" by simp
  from iter_daily_data_nth [OF this] b show ?thesis by metis
qed

lemma build_on_day:
  assumes "build_trade_window (filter (\<lambda>r. date r = d) df) sd dir eh xh = Some w"
  shows "tw_trade_day w = d"
    and "List.find (\<lambda>r. date r = d \<and> hour r = eh) df =
           Some (hd (filter (\<lambda>r. date r = d \<and> hour r = eh) df))"
    and "tw_entry_price w = open_px (hd (filter (\<lambda>r. date r = d \<and> hour r = eh) df))"
    and "\<exists>r\<in>set df. date r = d \<and> hour r = eh"
    and "\<exists>r\<in>set df. date r = d \<and> hour r = xh"
proof -
  let ?day = "filter (\<lambda>r. date r = d) df"
  note D = build_trade_window_SomeD [OF assms]
  have "date (hd (filter (\<lambda>r. eh \<le> hour r \<and> hour r \<le> xh) ?day)) = d"
    using hd_filter_in [OF D(3)] by simp
  with D(5) show "tw_trade_day w = d" by simp
  have ne: "filter (\<lambda>r. date r = d \<and> hour r = eh) df \<noteq> []"
    using D(1) by simp
  then show "List.find (\<lambda>r. date r = d \<and> hour r = eh) df =
           Some (hd (filter (\<lambda>r. date r = d \<and> hour r = eh) df))"
    by (simp add: find_hd_filter)
  show "tw_entry_price w = open_px (hd (filter (\<lambda>r. date r = d \<and> hour r = eh) df))"
    using D(7) by simp
  from D(1) show "\<exists>r\<in>set df. date r = d \<and> hour r = eh"
    by (auto simp: filter_empty_conv)
  from D(2) show "\<exists>r\<in>set df. date r = d \<and> hour r = xh"
    by (auto simp: filter_empty_conv)
qed

lemma iter_daily_data_example:
  "iter_daily_data example_frame =
     [ [bar_at 0 22 99 101 98 100, bar_at 0 23 100 101 94 95],
      [bar_at 1 11 101 102 100 101, bar_at 1 12 101 102 98 99, bar_at 1 21 99 102 99 103] ]"
  by (simp add: iter_daily_data_def example_frame_def bar_at_sel)

lemma iter_daily_data_no_exit:
  "iter_daily_data no_exit_frame =
     [ [bar_at 0 22 99 101 98 100, bar_at 0 23 100 101 94 95],
      [bar_at 1 11 101 102 100 101, bar_at 1 12 101 102 98 99] ]"
  by (simp add: iter_daily_data_def no_exit_frame_def bar_at_sel)

lemma generate_example:
  "generate_trade_windows example_frame 11 21 =
     [\<lparr>tw_signal_day = 0, tw_trade_day = 1, tw_direction = Buy, tw_entry_price = 101,
       tw_data = example_window Buy\<rparr>]"
  by (simp add: generate_trade_windows_def iter_daily_data_example Let_def
      determine_signal_def build_trade_window_def example_window_def bar_at_sel)

lemma generate_no_exit: "generate_trade_windows no_exit_frame 11 21 = []"
  by (simp add: generate_trade_windows_def iter_daily_data_no_exit Let_def
      determine_signal_def build_trade_window_def bar_at_sel)

text \<open>
  Claim C3. For every window that \<open>generate_trade_windows\<close> returns and every bar of it,
  \<open>price_delta_from_entry\<close> is the close minus the entry price when the direction is Long
  and the entry price minus the close when it is Short, and \<open>return_pct_from_entry\<close> is
  that delta divided by the entry price times 100 (the non-finite result of the same
  division when the entry price is zero). The entry price, recorded on every bar, is the
  open of the first bar of the trade day at the entry hour.
\<close>

theorem window_deltas:
  assumes "w \<in> set (generate_trade_windows df eh xh)" and "b \<in> set (tw_data w)"
  shows "(tw_direction w = Buy \<longrightarrow> price_delta_from_entry b = close b - tw_entry_price w) \<and>
         (tw_direction w = Short \<longrightarrow> price_delta_from_entry b = tw_entry_price w - close b) \<and>
         (tw_entry_price w \<noteq> 0 \<longrightarrow>
            return_pct_from_entry b = Some (price_delta_from_entry b / tw_entry_price w * 100)) \<and>
         (tw_entry_price w = 0 \<longrightarrow> return_pct_from_entry b = None) \<and>
         entry_price b = tw_entry_price w \<and>
         (\<exists>e. List.find (\<lambda>r. date r = tw_trade_day w \<and> hour r = eh) df = Some e \<and>
              tw_entry_price w = open_px e)"
proof -
  from generate_origin [OF assms(1)] obtain sd dir d where
    bw: "build_trade_window (filter (\<lambda>r. date r = d) df) sd dir eh xh = Some w"
    by blast
  note D = build_trade_window_SomeD [OF bw]
  from assms(2) D(8) obtain r where
    b: "b = window_row sd (tw_trade_day w) dir (tw_entry_price w) eh r"
    by auto
  have rows: "(tw_direction w = Buy \<longrightarrow> price_delta_from_entry b = close b - tw_entry_price w) \<and>
         (tw_direction w = Short \<longrightarrow> price_delta_from_entry b = tw_entry_price w - close b) \<and>
         (tw_entry_price w \<noteq> 0 \<longrightarrow>
            return_pct_from_entry b = Some (price_delta_from_entry b / tw_entry_price w * 100)) \<and>
         (tw_entry_price w = 0 \<longrightarrow> return_pct_from_entry b = None) \<and>
         entry_price b = tw_entry_price w"
    using D(6) by (simp add: b window_row_sel)
  have "\<exists>e. List.find (\<lambda>r. date r = tw_trade_day w \<and> hour r = eh) df = Some e \<and>
              tw_entry_price w = open_px e"
    using build_on_day(1-3) [OF bw] by simp
  with rows show ?thesis by simp
qed

text \<open>The frame of the examples: one Long window with entry price 101, closes 101, 99 and
  103, hence deltas 0, -2 and 2.\<close>

theorem window_deltas_witness:
  "generate_trade_windows example_frame 11 21 =
     [\<lparr>tw_signal_day = 0, tw_trade_day = 1, tw_direction = Buy, tw_entry_price = 101,
       tw_data = example_window Buy\<rparr>] \<and>
   map price_delta_from_entry (example_window Buy) = [0, - 2, 2] \<and>
   map return_pct_from_entry (example_window Buy) = [Some 0, Some (- 200 / 101), Some (200 / 101)] \<and>
   price_delta_from_entry (example_window Buy ! 2) = close (example_window Buy ! 2) - 101 \<and>
   List.find (\<lambda>r. date r = 1 \<and> hour r = 11) example_frame = Some (bar_at 1 11 101 102 100 101)"
proof -
  let ?w = "\<lparr>tw_signal_day = 0, tw_trade_day = 1, tw_direction = Buy, tw_entry_price = 101,
       tw_data = example_window Buy\<rparr>"
  have w: "?w \<in> set (generate_trade_windows example_frame 11 21)"
    by (simp add: generate_example)
  have b: "example_window Buy ! 2 \<in> set (tw_data ?w)"
    by (simp add: example_window_def)
  have m: "map price_delta_from_entry (example_window Buy) = [0, - 2, 2]"
    "map return_pct_from_entry (example_window Buy) = [Some 0, Some (- 200 / 101), Some (200 / 101)]"
    by (simp_all add: example_window_def window_row_sel bar_at_sel)
  have f: "List.find (\<lambda>r. date r = 1 \<and> hour r = 11) example_frame = Some (bar_at 1 11 101 102 100 101)"
    by (simp add: example_frame_def bar_at_sel)
  from window_deltas [OF w b] m f show ?thesis
    by (simp add: generate_example)
qed

text \<open>
  Claim C5. A trade day without a bar at the entry hour or without a bar at the exit hour
  gives no window: \<open>build_trade_window\<close> returns \<open>None\<close>, the loop of
  \<open>generate_trade_windows\<close> passes the day pair and leaves its list of windows as it is,
  and every window generated from a frame is of a trade day that has a bar at the entry
  hour and a bar at the exit hour. Nothing is raised: the functions are total. A missing
  bar at the exit hour is enough, whether or not there is a bar at the entry hour.
\<close>

theorem missing_boundary_skipped:
  "((\<not> (\<exists>r\<in>set trade_df. hour r = eh) \<or> \<not> (\<exists>r\<in>set trade_df. hour r = xh)) \<longrightarrow>
      build_trade_window trade_df sd dir eh xh = None) \<and>
   ((\<not> (\<exists>r\<in>set (days ! (idx + 1)). hour r = eh) \<or>
     \<not> (\<exists>r\<in>set (days ! (idx + 1)). hour r = xh)) \<longrightarrow>
      trade_loop days eh xh (idx # rest) tws = trade_loop days eh xh rest tws) \<and>
   (\<forall>w\<in>set (generate_trade_windows df eh xh).
      (\<exists>r\<in>set df. date r = tw_trade_day w \<and> hour r = eh) \<and>
      (\<exists>r\<in>set df. date r = tw_trade_day w \<and> hour r = xh))"
proof (intro conjI impI ballI)
  assume "\<not> (\<exists>r\<in>set trade_df. hour r = eh) \<or> \<not> (\<exists>r\<in>set trade_df. hour r = xh)"
  then show "build_trade_window trade_df sd dir eh xh = None"
    by (rule build_trade_window_missing)
next
  assume "\<not> (\<exists>r\<in>set (days ! (idx + 1)). hour r = eh) \<or>
     \<not> (\<exists>r\<in>set (days ! (idx + 1)). hour r = xh)"
  then have "\<And>s d. build_trade_window (days ! (idx + 1)) s d eh xh = None"
    by (rule build_trade_window_missing)
  then show "trade_loop days eh xh (idx # rest) tws = trade_loop days eh xh rest tws"
    by (simp add: Let_def split: option.splits)
next
  fix w
  assume "w \<in> set (generate_trade_windows df eh xh)"
  from generate_origin [OF this] obtain s dir' d where
    bw: "build_trade_window (filter (\<lambda>r. date r = d) df) s dir' eh xh = Some w"
    by blast
  from build_on_day(1,4) [OF bw] show "\<exists>r\<in>set df. date r = tw_trade_day w \<and> hour r = eh"
    by simp
  from build_on_day(1,5) [OF bw] show "\<exists>r\<in>set df. date r = tw_trade_day w \<and> hour r = xh"
    by simp
qed

text \<open>A Long signal followed by a trade day with a bar at 11:00 and none at 21:00: no
  window. With the bar at 21:00 the same frame gives one window.\<close>

theorem missing_boundary_skipped_witness:
  "filter (\<lambda>r. hour r = 11) no_exit_day \<noteq> [] \<and>
   filter (\<lambda>r. hour r = 21) no_exit_day = [] \<and>
   build_trade_window no_exit_day 0 Buy 11 21 = None \<and>
   determine_signal (iter_daily_data no_exit_frame ! 0) = Some Buy \<and>
   iter_daily_data no_exit_frame ! (0 + 1) = no_exit_day \<and>
   trade_loop (iter_daily_data no_exit_frame) 11 21 (0 # []) [] = [] \<and>
   generate_trade_windows no_exit_frame 11 21 = [] \<and>
   generate_trade_windows example_frame 11 21 =
     [\<lparr>tw_signal_day = 0, tw_trade_day = 1, tw_direction = Buy, tw_entry_price = 101,
       tw_data = example_window Buy\<rparr>]"
proof -
  have h: "\<not> (\<exists>r\<in>set no_exit_day. hour r = 11) \<or> \<not> (\<exists>r\<in>set no_exit_day. hour r = 21)"
    by (simp add: no_exit_day_def bar_at_sel)
  have n: "iter_daily_data no_exit_frame ! (0 + 1) = no_exit_day"
    by (simp add: iter_daily_data_no_exit no_exit_day_def)
  have s: "determine_signal (iter_daily_data no_exit_frame ! 0) = Some Buy"
    by (simp add: iter_daily_data_no_exit determine_signal_def bar_at_sel)
  have f: "filter (\<lambda>r. hour r = 11) no_exit_day \<noteq> []" "filter (\<lambda>r. hour r = 21) no_exit_day = []"
    by (simp_all add: no_exit_day_def bar_at_sel)
  note T = missing_boundary_skipped [of no_exit_day 11 21 0 Buy "iter_daily_data no_exit_frame" 0
      "[]" "[]" example_frame]
  from T h have a: "build_trade_window no_exit_day 0 Buy 11 21 = None"
    by blast
  have h': "\<not> (\<exists>r\<in>set (iter_daily_data no_exit_frame ! (0 + 1)). hour r = 11) \<or>
     \<not> (\<exists>r\<in>set (iter_daily_data no_exit_frame ! (0 + 1)). hour r = 21)"
    unfolding n by (rule h)
  from T h' have "trade_loop (iter_daily_data no_exit_frame) 11 21 (0 # []) [] =
      trade_loop (iter_daily_data no_exit_frame) 11 21 [] []"
    by blast
  also have "\<dots> = []" by simp
  finally have b: "trade_loop (iter_daily_data no_exit_frame) 11 21 (0 # []) [] = []" .
  from a b n s f show ?thesis
    by (simp only: generate_no_exit generate_example simp_thms)
qed

section \<open>The loader\<close>

lemma missing_iff: "(required - S \<noteq> {}) = (\<not> required \<subseteq> S)"
  by auto

lemma with_date_hour_sel:
  "timestamp (with_date_hour p) = snd p"
  "date (with_date_hour p) = date_of (snd p)"
  "hour (with_date_hour p) = hour_of (snd p)"
  "time (with_date_hour p) = time (fst p)"
  "csv_of (with_date_hour p) = fst p"
  by (simp_all add: with_date_hour_def csv_of_def)

lemma load_rows:
  fixes to_datetime :: "string \<Rightarrow> int" and rows :: "csv_row list"
  defines "bars \<equiv> map with_date_hour (sort_key snd (map (with_timestamp to_datetime) rows))"
  shows "sorted (map timestamp bars)"
    and "mset (map csv_of bars) = mset rows"
    and "\<forall>b\<in>set bars. timestamp b = to_datetime (time b) \<and>
           date b = date_of (timestamp b) \<and> hour b = hour_of (timestamp b)"
proof -
  let ?ys = "map (with_timestamp to_datetime) rows"
  have "map timestamp bars = map snd (sort_key snd ?ys)"
    by (simp add: bars_def with_date_hour_sel comp_def)
  then show "sorted (map timestamp bars)"
    by simp
  have "map csv_of bars = map fst (sort_key snd ?ys)"
    by (simp add: bars_def with_date_hour_sel comp_def)
  then have "mset (map csv_of bars) = image_mset fst (mset ?ys)"
    by simp
  also have "\<dots> = mset rows"
    by (simp add: with_timestamp_def image_mset.compositionality comp_def)
  finally show "mset (map csv_of bars) = mset rows" .
  show "\<forall>b\<in>set bars. timestamp b = to_datetime (time b) \<and>
           date b = date_of (timestamp b) \<and> hour b = hour_of (timestamp b)"
    by (auto simp: bars_def with_date_hour_sel with_timestamp_def)
qed

lemma required_example:
  "required \<subseteq> {''time'', ''open'', ''high'', ''low'', ''close'', ''Volume''}"
  "\<not> required \<subseteq> {''time'', ''open'', ''high'', ''low''}"
  unfolding required_def by simp_all

lemma load_example:
  "load_price_data example_clock example_fs ''us30.csv'' =
     Inr [\<lparr>time = ''1970-01-01T23:00:00Z'', open_px = 100, high = 101, low = 94, close = 95,
           timestamp = 82800, date = 0, hour = 23\<rparr>,
          \<lparr>time = ''1970-01-02T11:00:00Z'', open_px = 101, high = 102, low = 100, close = 101,
           timestamp = 126000, date = 1, hour = 11\<rparr>]"
  by (simp add: load_price_data_def example_fs_def missing_iff required_example Let_def
      with_timestamp_def with_date_hour_def example_clock_def date_of_def hour_of_def)

text \<open>
  Claim C8. \<open>load_price_data\<close> fails with \<open>FileNotFoundError\<close> (the specification's
  SourceNotFoundError) when the source file does not exist and with \<open>ValueError\<close> (its
  MissingColumnError) when the file lacks one of the columns time, open, high, low and
  close. Otherwise it returns the rows of the file, each once, in ascending order of
  their parsed timestamps, each with the date and the hour of its timestamp.
\<close>

theorem load_price_data_contract:
  "(fs csv_path = None \<longrightarrow> load_price_data to_datetime fs csv_path = Inl FileNotFoundError) \<and>
   (\<forall>df. fs csv_path = Some df \<and> \<not> required \<subseteq> set (columns df) \<longrightarrow>
      load_price_data to_datetime fs csv_path = Inl ValueError) \<and>
   (\<forall>df. fs csv_path = Some df \<and> required \<subseteq> set (columns df) \<longrightarrow>
      (\<exists>bars. load_price_data to_datetime fs csv_path = Inr bars \<and>
         sorted (map timestamp bars) \<and>
         mset (map csv_of bars) = mset (csv_rows df) \<and>
         (\<forall>b\<in>set bars. timestamp b = to_datetime (time b) \<and>
            date b = date_of (timestamp b) \<and> hour b = hour_of (timestamp b))))"
proof (intro conjI allI impI)
  assume "fs csv_path = None"
  then show "load_price_data to_datetime fs csv_path = Inl FileNotFoundError"
    by (simp add: load_price_data_def)
next
  fix df
  assume "fs csv_path = Some df \<and> \<not> required \<subseteq> set (columns df)"
  then show "load_price_data to_datetime fs csv_path = Inl ValueError"
    by (simp add: load_price_data_def missing_iff Let_def)
next
  fix df
  assume a: "fs csv_path = Some df \<and> required \<subseteq> set (columns df)"
  let ?bars = "map with_date_hour (sort_key snd (map (with_timestamp to_datetime) (csv_rows df)))"
  from a have "load_price_data to_datetime fs csv_path = Inr ?bars"
    by (simp add: load_price_data_def missing_iff Let_def)
  with load_rows [of to_datetime "csv_rows df"]
  show "\<exists>bars. load_price_data to_datetime fs csv_path = Inr bars \<and>
         sorted (map timestamp bars) \<and>
         mset (map csv_of bars) = mset (csv_rows df) \<and>
         (\<forall>b\<in>set bars. timestamp b = to_datetime (time b) \<and>
            date b = date_of (timestamp b) \<and> hour b = hour_of (timestamp b))"
    by blast
qed

text \<open>A path with no file, a file without the column \<open>close\<close>, and a file of two rows
  given latest first, returned earliest first with dates 0 and 1 and hours 23 and 11.\<close>

theorem load_price_data_contract_witness:
  "load_price_data example_clock example_fs ''none.csv'' = Inl FileNotFoundError \<and>
   load_price_data example_clock example_fs ''short.csv'' = Inl ValueError \<and>
   load_price_data example_clock example_fs ''us30.csv'' =
     Inr [\<lparr>time = ''1970-01-01T23:00:00Z'', open_px = 100, high = 101, low = 94, close = 95,
           timestamp = 82800, date = 0, hour = 23\<rparr>,
          \<lparr>time = ''1970-01-02T11:00:00Z'', open_px = 101, high = 102, low = 100, close = 101,
           timestamp = 126000, date = 1, hour = 11\<rparr>]"
proof -
  have n: "example_fs ''none.csv'' = None"
    by (simp add: example_fs_def)
  obtain df where s: "example_fs ''short.csv'' = Some df" "\<not> required \<subseteq> set (columns df)"
    by (simp add: example_fs_def required_example)
  from load_price_data_contract [of example_fs "''none.csv''" example_clock] n
  have a: "load_price_data example_clock example_fs ''none.csv'' = Inl FileNotFoundError"
    by blast
  from load_price_data_contract [of example_fs "''short.csv''" example_clock] s
  have b: "load_price_data example_clock example_fs ''short.csv'' = Inl ValueError"
    by blast
  from a b load_example show ?thesis by simp
qed

end
